theory Spec2Isabelle
  imports Complex_Main
begin

section \<open>JavaScript values\<close>

text \<open>
  A JavaScript number is a finite value, one of the two infinities, or NaN. A finite
  value is carried as the real number it denotes: the two signed zeros are identified
  (every comparison of the program treats them alike), and arithmetic on finite values
  is exact, so rounding and overflow of IEEE doubles are not part of this model.
  \<open>Math.min\<close>, \<open>Math.max\<close> and the comparisons return one of their arguments or a
  truth value, so for them nothing is idealised.
\<close>

datatype jsnum = NaN | NInf | Fin real | PInf

text \<open>\<open>a < b\<close> and \<open>a <= b\<close> of JavaScript: false as soon as one side is NaN.\<close>

fun js_lt :: "jsnum \<Rightarrow> jsnum \<Rightarrow> bool" where
  "js_lt NaN _ = False"
| "js_lt _ NaN = False"
| "js_lt (Fin a) (Fin b) = (a < b)"
| "js_lt NInf NInf = False"
| "js_lt NInf _ = True"
| "js_lt _ NInf = False"
| "js_lt PInf _ = False"
| "js_lt _ PInf = True"

fun js_le :: "jsnum \<Rightarrow> jsnum \<Rightarrow> bool" where
  "js_le NaN _ = False"
| "js_le _ NaN = False"
| "js_le (Fin a) (Fin b) = (a \<le> b)"
| "js_le NInf _ = True"
| "js_le _ NInf = False"
| "js_le _ PInf = True"
| "js_le PInf _ = False"

text \<open>\<open>Math.min(a, b)\<close> and \<open>Math.max(a, b)\<close>: NaN as soon as one argument is NaN.\<close>

fun Math_min :: "jsnum \<Rightarrow> jsnum \<Rightarrow> jsnum" where
  "Math_min NaN _ = NaN"
| "Math_min _ NaN = NaN"
| "Math_min a b = (if js_le a b then a else b)"

fun Math_max :: "jsnum \<Rightarrow> jsnum \<Rightarrow> jsnum" where
  "Math_max NaN _ = NaN"
| "Math_max _ NaN = NaN"
| "Math_max a b = (if js_le a b then b else a)"

text \<open>The arithmetic the proximity check uses: \<open>a - b\<close>, \<open>a * b\<close>, \<open>a + b\<close>.\<close>

fun js_add :: "jsnum \<Rightarrow> jsnum \<Rightarrow> jsnum" where
  "js_add NaN _ = NaN"
| "js_add _ NaN = NaN"
| "js_add (Fin a) (Fin b) = Fin (a + b)"
| "js_add PInf NInf = NaN"
| "js_add NInf PInf = NaN"
| "js_add PInf _ = PInf"
| "js_add _ PInf = PInf"
| "js_add NInf _ = NInf"
| "js_add _ NInf = NInf"

fun js_neg :: "jsnum \<Rightarrow> jsnum" where
  "js_neg NaN = NaN"
| "js_neg NInf = PInf"
| "js_neg (Fin a) = Fin (- a)"
| "js_neg PInf = NInf"

definition js_sub :: "jsnum \<Rightarrow> jsnum \<Rightarrow> jsnum" where
  "js_sub a b = js_add a (js_neg b)"

text \<open>The sign of a number that is not NaN: \<open>-1\<close>, \<open>0\<close> or \<open>1\<close>.\<close>

fun js_sgn :: "jsnum \<Rightarrow> real" where
  "js_sgn NaN = 0"
| "js_sgn NInf = - 1"
| "js_sgn (Fin a) = sgn a"
| "js_sgn PInf = 1"

fun js_mul :: "jsnum \<Rightarrow> jsnum \<Rightarrow> jsnum" where
  "js_mul NaN _ = NaN"
| "js_mul _ NaN = NaN"
| "js_mul (Fin a) (Fin b) = Fin (a * b)"
| "js_mul a b =
     (if js_sgn a * js_sgn b = 0 then NaN
      else if 0 < js_sgn a * js_sgn b then PInf else NInf)"

text \<open>
  The values \<open>JSON.parse\<close> returns, and \<open>undefined\<close>, which reading an absent property
  gives. An object is the list of its own properties, and a read takes the first entry
  of a name. A string is the list of its code units.
\<close>

datatype jsval =
    JUndefined
  | JNull
  | JBool bool
  | JNum jsnum
  | JStr string
  | JArr "jsval list"
  | JObj "(string \<times> jsval) list"

text \<open>Truthiness, as \<open>!v\<close> tests it.\<close>

fun truthy :: "jsval \<Rightarrow> bool" where
  "truthy JUndefined = False"
| "truthy JNull = False"
| "truthy (JBool b) = b"
| "truthy (JNum n) = (n \<noteq> NaN \<and> n \<noteq> Fin 0)"
| "truthy (JStr s) = (s \<noteq> [])"
| "truthy (JArr _) = True"
| "truthy (JObj _) = True"

text \<open>
  The property read \<open>v.k\<close>, for the names the handler reads (\<open>type\<close>, \<open>name\<close>, \<open>x\<close>,
  \<open>y\<close>, \<open>bubbleRadius\<close>, \<open>coinId\<close>, \<open>to\<close>, \<open>data\<close>, \<open>text\<close>): an own property of
  an object, and \<open>undefined\<close> otherwise, since no prototype defines one of these names.
  Reading a property of \<open>null\<close> would throw; the handler's guard \<open>!msg\<close> comes first,
  so the value given here for \<open>JNull\<close> is never used.
\<close>

fun get_prop :: "jsval \<Rightarrow> string \<Rightarrow> jsval" where
  "get_prop (JObj kvs) k = (case map_of kvs k of Some v \<Rightarrow> v | None \<Rightarrow> JUndefined)"
| "get_prop _ k = JUndefined"

text \<open>
  Whether \<open>String(v)\<close> returns. The conversion of an array joins the conversions of its
  elements (\<open>undefined\<close> and \<open>null\<close> give the empty string). The conversion of an object
  calls its \<open>toString\<close>, then its \<open>valueOf\<close>: an object without an own \<open>toString\<close>
  inherits the one of \<open>Object.prototype\<close> and converts to a fixed string; an own
  \<open>toString\<close> of a parsed object is never callable, \<open>valueOf\<close> (own or inherited)
  never yields a primitive, and the conversion throws a \<open>TypeError\<close>.
\<close>

fun String_returns :: "jsval \<Rightarrow> bool" where
  "String_returns (JArr vs) = list_all String_returns vs"
| "String_returns (JObj kvs) = (map_of kvs ''toString'' = None)"
| "String_returns _ = True"

text \<open>\<open>a || b\<close>.\<close>

definition js_or :: "jsval \<Rightarrow> jsval \<Rightarrow> jsval" where
  "js_or a b = (if truthy a then a else b)"

text \<open>
  The decimal numeral of a natural number: what \<open>'c' + i\<close> and \<open>'p' + n\<close> append for an
  integer-valued number below \<open>10^21\<close>.
\<close>

definition digit :: "nat \<Rightarrow> char" where
  "digit d = ''0123456789'' ! d"

function show_nat :: "nat \<Rightarrow> string" where
  "show_nat n = (if n < 10 then [digit n] else show_nat (n div 10) @ [digit (n mod 10)])"
  by pat_completeness auto
termination
  by (relation "measure id") auto

declare show_nat.simps [simp del]

section \<open>The world state\<close>

definition WORLD_W :: real where "WORLD_W = 1600"
definition WORLD_H :: real where "WORLD_H = 900"
definition GROUND_Y :: real where "GROUND_Y = WORLD_H - 120"

text \<open>
  \<open>readyState\<close> of a socket. A socket is named by a handle, a natural number; the
  transport hands each connection a socket of its own.
\<close>

datatype ready_state = CONNECTING | OPEN | CLOSING | CLOSED

record player =
  p_id :: string
  p_name :: string
  p_x :: jsnum
  p_y :: jsnum
  p_bubbleRadius :: jsnum
  p_ws :: nat

record coin =
  c_id :: string
  c_x :: jsnum
  c_y :: jsnum
  c_taken :: bool

text \<open>What the \<open>state\<close> payload keeps of a player: every field but \<open>ws\<close>.\<close>

record player_info =
  i_id :: string
  i_name :: string
  i_x :: jsnum
  i_y :: jsnum
  i_bubbleRadius :: jsnum

text \<open>
  The objects given to \<open>JSON.stringify\<close> and sent: \<open>welcome\<close> (id, world \<open>w\<close>,
  \<open>h\<close>, \<open>groundY\<close>, coins), \<open>state\<close> (\<open>t\<close>, players, coins) and \<open>signal\<close>
  (\<open>from\<close>, \<open>data\<close>). The serialisation itself is the library's and is not modelled.
\<close>

datatype frame =
    Welcome string real real real "coin list"
  | State nat "player_info list" "coin list"
  | Signal string jsval

text \<open>
  The module's variables \<open>nextId\<close>, \<open>players\<close> and \<open>coins\<close>, and what they refer to.
  \<open>players\<close> is the \<open>Map\<close> in insertion order; its values are references to player
  objects, kept in \<open>objs\<close>. The player object created for a connection is referred to
  by the handle of that connection's socket, so the handler of socket \<open>h\<close> holds the
  object \<open>objs s h\<close> whether or not the \<open>Map\<close> still has it. \<open>readyState\<close> is the
  state of each socket, and \<open>outbox\<close> lists every \<open>ws.send\<close> so far, oldest first:
  the socket and the object sent.
\<close>

record world =
  nextId :: nat
  players :: "(string \<times> nat) list"
  objs :: "nat \<Rightarrow> player"
  coins :: "coin list"
  readyState :: "nat \<Rightarrow> ready_state"
  outbox :: "(nat \<times> frame) list"

text \<open>
  \<open>Map.set\<close>, \<open>Map.get\<close> and \<open>Map.delete\<close>. A new key goes last, a key already
  present keeps its place and takes the new value. Every key is a string, so \<open>get\<close>
  finds nothing for a value that is not one.
\<close>

fun Map_set :: "string \<Rightarrow> nat \<Rightarrow> (string \<times> nat) list \<Rightarrow> (string \<times> nat) list" where
  "Map_set k v [] = [(k, v)]"
| "Map_set k v ((k', v') # kvs) =
     (if k' = k then (k, v) # kvs else (k', v') # Map_set k v kvs)"

fun Map_get :: "(string \<times> nat) list \<Rightarrow> jsval \<Rightarrow> nat option" where
  "Map_get kvs (JStr k) = map_of kvs k"
| "Map_get kvs _ = None"

definition Map_delete :: "string \<Rightarrow> (string \<times> nat) list \<Rightarrow> (string \<times> nat) list" where
  "Map_delete k kvs = filter (\<lambda>kv. fst kv \<noteq> k) kvs"

text \<open>\<open>Array.prototype.find\<close>, giving the position of the element found.\<close>

fun find_idx :: "('a \<Rightarrow> bool) \<Rightarrow> 'a list \<Rightarrow> nat option" where
  "find_idx P [] = None"
| "find_idx P (x # xs) = (if P x then Some 0 else map_option Suc (find_idx P xs))"

subsection \<open>spawnCoins\<close>

text \<open>
  \<open>Math.random()\<close> is a parameter: \<open>rnd k\<close> is what its \<open>k\<close>-th call returns, a
  number in \<open>[0, 1)\<close>. Coin \<open>i\<close> takes calls \<open>2 i\<close> and \<open>2 i + 1\<close>.
\<close>

definition new_coin :: "(nat \<Rightarrow> real) \<Rightarrow> nat \<Rightarrow> coin" where
  "new_coin rnd i =
     \<lparr> c_id = ''c'' @ show_nat i,
       c_x = Fin (80 + of_int \<lfloor>rnd (2 * i) * (WORLD_W - 160)\<rfloor>),
       c_y = Fin (80 + of_int \<lfloor>rnd (2 * i + 1) * (WORLD_H - 240)\<rfloor>),
       c_taken = False \<rparr>"

function spawn_loop :: "(nat \<Rightarrow> real) \<Rightarrow> nat \<Rightarrow> coin list \<Rightarrow> coin list" where
  "spawn_loop rnd i cs =
     (if i < 20 then spawn_loop rnd (i + 1) (cs @ [new_coin rnd i]) else cs)"
  by pat_completeness auto
termination
  by (relation "measure (\<lambda>(rnd, i, cs). 20 - i)") auto

declare spawn_loop.simps [simp del]

definition spawnCoins :: "(nat \<Rightarrow> real) \<Rightarrow> world \<Rightarrow> world" where
  "spawnCoins rnd s = s\<lparr>coins := spawn_loop rnd 0 []\<rparr>"

subsection \<open>broadcastState and send\<close>

definition ws_send :: "nat \<Rightarrow> frame \<Rightarrow> world \<Rightarrow> world" where
  "ws_send h f s = s\<lparr>outbox := outbox s @ [(h, f)]\<rparr>"

definition info :: "player \<Rightarrow> player_info" where
  "info p = \<lparr> i_id = p_id p, i_name = p_name p, i_x = p_x p, i_y = p_y p,
              i_bubbleRadius = p_bubbleRadius p \<rparr>"

text \<open>\<open>Array.from(players.values())\<close>: the player objects of the \<open>Map\<close>, in its order.\<close>

definition players_values :: "world \<Rightarrow> player list" where
  "players_values s = map (\<lambda>kv. objs s (snd kv)) (players s)"

text \<open>The loop of \<open>broadcastState\<close> over the players; \<open>p.ws\<close> is a socket, never falsy.\<close>

fun send_each :: "frame \<Rightarrow> player list \<Rightarrow> world \<Rightarrow> world" where
  "send_each raw [] s = s"
| "send_each raw (p # ps) s =
     send_each raw ps (if readyState s (p_ws p) = OPEN then ws_send (p_ws p) raw s else s)"

text \<open>\<open>now\<close> is what \<open>Date.now()\<close> returns at the call.\<close>

definition broadcastState :: "nat \<Rightarrow> world \<Rightarrow> world" where
  "broadcastState now s =
     (let payload = State now (map info (players_values s)) (coins s)
      in send_each payload (players_values s) s)"

definition send :: "nat \<Rightarrow> frame \<Rightarrow> world \<Rightarrow> world" where
  "send ws obj s = (if readyState s ws = OPEN then ws_send ws obj s else s)"

subsection \<open>The connection handler\<close>

text \<open>
  \<open>nextId++\<close> on a double: exact below \<open>2^53\<close>; at \<open>2^53\<close> the sum \<open>2^53 + 1\<close> is not
  a double and rounds back to \<open>2^53\<close>. The counter starts at 1, so it never passes
  \<open>2^53\<close>.
\<close>

definition incr :: "nat \<Rightarrow> nat" where
  "incr n = (if n < 2 ^ 53 then n + 1 else n)"

definition new_player :: "string \<Rightarrow> nat \<Rightarrow> player" where
  "new_player ident ws =
     \<lparr> p_id = ident, p_name = ''Pilot'' @ ident, p_x = Fin (WORLD_W / 2),
       p_y = Fin (WORLD_H / 2), p_bubbleRadius = Fin 120, p_ws = ws \<rparr>"

definition on_connection :: "nat \<Rightarrow> nat \<Rightarrow> world \<Rightarrow> world" where
  "on_connection ws now s =
     (let ident = ''p'' @ show_nat (nextId s);
          s1 = s\<lparr>nextId := incr (nextId s)\<rparr>;
          s2 = s1\<lparr>objs := (objs s1)(ws := new_player ident ws)\<rparr>;
          s3 = s2\<lparr>players := Map_set ident ws (players s2)\<rparr>;
          s4 = send ws (Welcome ident WORLD_W WORLD_H GROUND_Y (coins s3)) s3
      in broadcastState now s4)"

subsection \<open>The message handler\<close>

text \<open>The handler's \<open>player\<close> is the object \<open>objs s h\<close>; an assignment to one of its
  fields replaces the object in the store.\<close>

definition set_player :: "nat \<Rightarrow> player \<Rightarrow> world \<Rightarrow> world" where
  "set_player h p s = s\<lparr>objs := (objs s)(h := p)\<rparr>"

definition msg_join :: "nat \<Rightarrow> nat \<Rightarrow> jsval \<Rightarrow> world \<Rightarrow> world" where
  "msg_join h now msg s =
     (let s1 = set_player h ((objs s h)\<lparr>p_name :=
                  (case get_prop msg ''name'' of JStr n \<Rightarrow> take 32 n | _ \<Rightarrow> p_name (objs s h))\<rparr>) s;
          s2 = (case get_prop msg ''x'' of
                  JNum v \<Rightarrow> set_player h ((objs s1 h)\<lparr>p_x := v\<rparr>) s1 | _ \<Rightarrow> s1);
          s3 = (case get_prop msg ''y'' of
                  JNum v \<Rightarrow> set_player h ((objs s2 h)\<lparr>p_y := v\<rparr>) s2 | _ \<Rightarrow> s2)
      in broadcastState now s3)"

definition msg_update :: "nat \<Rightarrow> jsval \<Rightarrow> world \<Rightarrow> world" where
  "msg_update h msg s =
     (let s1 = (case get_prop msg ''x'' of
                  JNum v \<Rightarrow> set_player h ((objs s h)\<lparr>p_x :=
                              Math_max (Fin 0) (Math_min (Fin WORLD_W) v)\<rparr>) s
                | _ \<Rightarrow> s);
          s2 = (case get_prop msg ''y'' of
                  JNum v \<Rightarrow> set_player h ((objs s1 h)\<lparr>p_y :=
                              Math_max (Fin 0) (Math_min (Fin WORLD_H) v)\<rparr>) s1
                | _ \<Rightarrow> s1)
      in (case get_prop msg ''bubbleRadius'' of
            JNum v \<Rightarrow> set_player h ((objs s2 h)\<lparr>p_bubbleRadius :=
                        Math_max (Fin 30) (Math_min (Fin 400) v)\<rparr>) s2
          | _ \<Rightarrow> s2))"

text \<open>The proximity check \<open>dx*dx + dy*dy < 20*20\<close> of a coin against a player.\<close>

definition proximity :: "coin \<Rightarrow> player \<Rightarrow> bool" where
  "proximity coin player =
     (let dx = js_sub (c_x coin) (p_x player);
          dy = js_sub (c_y coin) (p_y player)
      in js_lt (js_add (js_mul dx dx) (js_mul dy dy)) (js_mul (Fin 20) (Fin 20)))"

definition msg_collect :: "nat \<Rightarrow> nat \<Rightarrow> jsval \<Rightarrow> world \<Rightarrow> world" where
  "msg_collect h now msg s =
     (let coinId = get_prop msg ''coinId''
      in case find_idx (\<lambda>c. JStr (c_id c) = coinId) (coins s) of
           None \<Rightarrow> s
         | Some i \<Rightarrow>
             (let coin = coins s ! i
              in if \<not> c_taken coin then
                   (if proximity coin (objs s h)
                    then broadcastState now
                           (s\<lparr>coins := (coins s)[i := coin\<lparr>c_taken := True\<rparr>]\<rparr>)
                    else s)
                 else s))"

definition msg_signal :: "nat \<Rightarrow> jsval \<Rightarrow> world \<Rightarrow> world" where
  "msg_signal h msg s =
     (case Map_get (players s) (get_prop msg ''to'') of
        None \<Rightarrow> s
      | Some t \<Rightarrow>
          if readyState s (p_ws (objs s t)) = OPEN
          then send (p_ws (objs s t)) (Signal (p_id (objs s h)) (get_prop msg ''data'')) s
          else s)"

text \<open>
  The only statement of the handler that can throw is \<open>String(msg.text || '')\<close>; the
  string it gives is never read. Nothing has been changed when it throws.
\<close>

datatype error = TypeError

definition msg_chat :: "nat \<Rightarrow> jsval \<Rightarrow> world \<Rightarrow> error + world" where
  "msg_chat now msg s =
     (if String_returns (js_or (get_prop msg ''text'') (JStr []))
      then Inr (broadcastState now s) else Inl TypeError)"

text \<open>What \<open>JSON.parse(raw)\<close> does with the frame: it throws, or returns a value.\<close>

datatype parsed = SyntaxError | Value jsval

text \<open>The handler of the socket \<open>h\<close>.\<close>

definition on_message :: "nat \<Rightarrow> nat \<Rightarrow> parsed \<Rightarrow> world \<Rightarrow> error + world" where
  "on_message h now raw s =
     (case raw of
        SyntaxError \<Rightarrow> Inr s
      | Value msg \<Rightarrow>
          if \<not> truthy msg \<or> \<not> truthy (get_prop msg ''type'') then Inr s
          else
            (let ty = get_prop msg ''type'';
                 s1 = (if ty = JStr ''join'' then msg_join h now msg s else s);
                 s2 = (if ty = JStr ''update'' then msg_update h msg s1 else s1);
                 s3 = (if ty = JStr ''collect'' then msg_collect h now msg s2 else s2);
                 s4 = (if ty = JStr ''signal'' then msg_signal h msg s3 else s3)
             in if ty = JStr ''chat'' then msg_chat now msg s4 else Inr s4))"

definition on_close :: "nat \<Rightarrow> nat \<Rightarrow> world \<Rightarrow> world" where
  "on_close h now s =
     broadcastState now (s\<lparr>players := Map_delete (p_id (objs s h)) (players s)\<rparr>)"

subsection \<open>Runs of the server\<close>

text \<open>
  The state once the module is loaded; no socket exists yet. Then the events the
  server reacts to, each with the time at which it happens: a connection on a socket
  (open when the transport announces it), a frame on a socket, the close of a socket,
  a tick of the 50 ms timer. An exception that leaves a handler ends the run.
\<close>

definition blank :: player where
  "blank = \<lparr> p_id = [], p_name = [], p_x = Fin 0, p_y = Fin 0, p_bubbleRadius = Fin 0,
            p_ws = 0 \<rparr>"

definition init :: "(nat \<Rightarrow> real) \<Rightarrow> world" where
  "init rnd = spawnCoins rnd
     \<lparr> nextId = 1, players = [], objs = (\<lambda>_. blank), coins = [],
       readyState = (\<lambda>_. CONNECTING), outbox = [] \<rparr>"

datatype event = Connection nat | Message nat parsed | Close nat | Tick

fun step :: "nat \<times> event \<Rightarrow> world \<Rightarrow> error + world" where
  "step (now, Connection h) s =
     Inr (on_connection h now (s\<lparr>readyState := (readyState s)(h := OPEN)\<rparr>))"
| "step (now, Message h raw) s = on_message h now raw s"
| "step (now, Close h) s =
     Inr (on_close h now (s\<lparr>readyState := (readyState s)(h := CLOSED)\<rparr>))"
| "step (now, Tick) s = Inr (broadcastState now s)"

fun run :: "(nat \<times> event) list \<Rightarrow> world \<Rightarrow> error + world" where
  "run [] s = Inr s"
| "run (e # es) s = (case step e s of Inl err \<Rightarrow> Inl err | Inr s' \<Rightarrow> run es s')"

section \<open>Notions the properties are stated with\<close>





text \<open>
  What one broadcast sends in the state \<open>s\<close> at the time \<open>now\<close>: the same \<open>state\<close>
  payload to the socket of every player of the \<open>Map\<close> whose socket is open.
\<close>

definition state_frames :: "nat \<Rightarrow> world \<Rightarrow> (nat \<times> frame) list" where
  "state_frames now s =
     map (\<lambda>p. (p_ws p, State now (map info (players_values s)) (coins s)))
       (filter (\<lambda>p. readyState s (p_ws p) = OPEN) (players_values s))"


text \<open>The coin a \<open>collect\<close> message names: the first one whose id is its \<open>coinId\<close>.\<close>

definition named_coin :: "jsval \<Rightarrow> world \<Rightarrow> nat option" where
  "named_coin msg s = find_idx (\<lambda>c. JStr (c_id c) = get_prop msg ''coinId'') (coins s)"

text \<open>
  How the coins of a later state relate to those of an earlier one: the same coins in
  the same order, with the same ids and positions, and every coin taken before still
  taken.
\<close>

definition coins_kept :: "coin list \<Rightarrow> coin list \<Rightarrow> bool" where
  "coins_kept cs cs' =
     list_all2 (\<lambda>c c'. c_id c' = c_id c \<and> c_x c' = c_x c \<and> c_y c' = c_y c \<and>
                        (c_taken c' \<or> \<not> c_taken c)) cs cs'"





fun is_connection :: "nat \<times> event \<Rightarrow> bool" where
  "is_connection (now, Connection h) = True"
| "is_connection _ = False"

definition connections :: "(nat \<times> event) list \<Rightarrow> nat" where
  "connections es = length (filter is_connection es)"



subsection \<open>Concrete inputs\<close>

text \<open>
  The world seeded with the random source that always returns \<open>1/2\<close>: every coin lies
  at \<open>(800, 410)\<close>. Then the world after a first connection, on the socket 0 at the
  time 1, and after a second one, on the socket 7 at the time 2.
\<close>

definition rnd_half :: "nat \<Rightarrow> real" where
  "rnd_half k = 1 / 2"

definition world0 :: world where
  "world0 = init rnd_half"

definition connected0 :: world where
  "connected0 = on_connection 0 1 (world0\<lparr>readyState := (readyState world0)(0 := OPEN)\<rparr>)"



definition update_far :: jsval where
  "update_far = JObj [(''type'', JStr ''update''), (''x'', JNum PInf),
     (''y'', JNum (Fin (- 3))), (''bubbleRadius'', JNum (Fin 9999))]"


text \<open>
  Messages of type \<open>join\<close>: one next to the coin \<open>c0\<close>, one at squared distance
  exactly 400 from it, and one with a name of 40 characters, an \<open>x\<close> outside the world
  and a \<open>y\<close> that is no number. A \<open>collect\<close> of \<open>c0\<close>. The world after the first
  player sent the second \<open>join\<close>, and after it sent the first \<open>join\<close> and the
  \<open>collect\<close>.
\<close>

definition join_near :: jsval where
  "join_near = JObj [(''type'', JStr ''join''), (''name'', JStr ''Ada''),
     (''x'', JNum (Fin 805)), (''y'', JNum (Fin 419))]"


definition join_wide :: jsval where
  "join_wide = JObj [(''type'', JStr ''join''),
     (''name'', JStr ''ABCDEFGHIJKLMNOPQRSTUVWXYZabcdefghijklmn''),
     (''x'', JNum (Fin 5000)), (''y'', JStr ''up'')]"

definition collect_c0 :: jsval where
  "collect_c0 = JObj [(''type'', JStr ''collect''), (''coinId'', JStr ''c0'')]"


definition taken0 :: world where
  "taken0 = msg_collect 0 3 collect_c0 (msg_join 0 2 join_near connected0)"

text \<open>
  A frame of an unknown type; a \<open>signal\<close> to the second player and one to nobody; a
  \<open>chat\<close> whose \<open>text\<close> is an object with a \<open>toString\<close> property.
\<close>

definition dance :: jsval where
  "dance = JObj [(''type'', JStr ''dance''), (''x'', JNum (Fin 1))]"



definition chat_toString :: jsval where
  "chat_toString = JObj [(''type'', JStr ''chat''),
     (''text'', JObj [(''toString'', JNum (Fin 1))])]"

section \<open>What a broadcast and the dispatch do\<close>

lemma send_each_eq:
  "send_each f ps s =
     s\<lparr>outbox := outbox s @ map (\<lambda>p. (p_ws p, f)) (filter (\<lambda>p. readyState s (p_ws p) = OPEN) ps)\<rparr>"
  by (induction ps arbitrary: s) (simp_all add: ws_send_def)

lemma broadcastState_eq: "broadcastState now s = s\<lparr>outbox := outbox s @ state_frames now s\<rparr>"
  by (simp add: broadcastState_def state_frames_def send_each_eq)

lemma state_frames_outbox [simp]: "state_frames now (s\<lparr>outbox := b\<rparr>) = state_frames now s"
  by (simp add: state_frames_def players_values_def)

lemma get_prop_JStr_truthy: "get_prop msg k = JStr t \<Longrightarrow> truthy msg"
  by (cases msg) simp_all

lemma on_message_join:
  "get_prop msg ''type'' = JStr ''join'' \<Longrightarrow>
     on_message h now (Value msg) s = Inr (msg_join h now msg s)"
  by (simp add: on_message_def get_prop_JStr_truthy)

lemma on_message_update:
  "get_prop msg ''type'' = JStr ''update'' \<Longrightarrow>
     on_message h now (Value msg) s = Inr (msg_update h msg s)"
  by (simp add: on_message_def get_prop_JStr_truthy)

lemma on_message_collect:
  "get_prop msg ''type'' = JStr ''collect'' \<Longrightarrow>
     on_message h now (Value msg) s = Inr (msg_collect h now msg s)"
  by (simp add: on_message_def get_prop_JStr_truthy)

lemma on_message_signal:
  "get_prop msg ''type'' = JStr ''signal'' \<Longrightarrow>
     on_message h now (Value msg) s = Inr (msg_signal h msg s)"
  by (simp add: on_message_def get_prop_JStr_truthy)

lemma on_message_chat:
  "get_prop msg ''type'' = JStr ''chat'' \<Longrightarrow>
     on_message h now (Value msg) s = msg_chat now msg s"
  by (simp add: on_message_def get_prop_JStr_truthy)

lemma on_message_other:
  assumes "get_prop msg ''type'' \<noteq> JStr ''join''" "get_prop msg ''type'' \<noteq> JStr ''update''"
    "get_prop msg ''type'' \<noteq> JStr ''collect''" "get_prop msg ''type'' \<noteq> JStr ''signal''"
    "get_prop msg ''type'' \<noteq> JStr ''chat''"
  shows "on_message h now (Value msg) s = Inr s"
  using assms by (simp add: on_message_def)

section \<open>Updates keep a player in range\<close>



lemma objs_broadcastState [simp]: "objs (broadcastState now s) = objs s"
  by (simp add: broadcastState_eq)

lemma objs_send [simp]: "objs (send ws f s) = objs s"
  by (simp add: send_def ws_send_def)







text \<open>Out-of-range and infinite values are clamped to the nearest bound.\<close>

lemma update_far_clamped:
  "\<exists>s'. run [(1, Connection 0), (2, Message 0 (Value update_far))] world0 = Inr s' \<and>
        p_x (objs s' 0) = Fin 1600 \<and> p_y (objs s' 0) = Fin 0 \<and>
        p_bubbleRadius (objs s' 0) = Fin 400"
proof -
  have ty: "get_prop update_far ''type'' = JStr ''update''"
    by (simp add: update_far_def)
  show ?thesis
    by (simp add: on_message_update [OF ty])
       (simp add: msg_update_def update_far_def set_player_def WORLD_W_def WORLD_H_def)
qed

section \<open>Decimal numerals\<close>






section \<open>Seeding the coins\<close>

lemma spawn_loop_eq: "i \<le> 20 \<Longrightarrow> spawn_loop rnd i cs = cs @ map (new_coin rnd) [i..<20]"
proof (induction rnd i cs rule: spawn_loop.induct)
  case (1 rnd i cs)
  show ?case
  proof (cases "i < 20")
    case True
    with 1 have "spawn_loop rnd (i + 1) (cs @ [new_coin rnd i]) =
        (cs @ [new_coin rnd i]) @ map (new_coin rnd) [i + 1..<20]"
      by simp
    with True show ?thesis
      by (subst spawn_loop.simps) (simp add: upt_conv_Cons)
  next
    case False
    with 1 show ?thesis
      by (subst spawn_loop.simps) simp
  qed
qed

lemma coins_spawnCoins: "coins (spawnCoins rnd s) = map (new_coin rnd) [0..<20]"
  by (simp add: spawnCoins_def spawn_loop_eq)

lemma upt_20: "[0..<20] = [0, 1, 2, 3, 4, 5, 6, 7, 8, 9, 10, 11, 12, 13, 14, 15, 16, 17, 18, 19 :: nat]"
  by (simp add: upt_rec)







lemma coins_world0_0: "coins world0 ! 0 = \<lparr>c_id = ''c0'', c_x = Fin 800, c_y = Fin 410, c_taken = False\<rparr>"
  by (simp add: world0_def init_def coins_spawnCoins upt_20 new_coin_def rnd_half_def
      WORLD_W_def WORLD_H_def show_nat.simps digit_def)

section \<open>What each handler leaves alone\<close>

lemma broadcastState_fields [simp]:
  "nextId (broadcastState now s) = nextId s"
  "players (broadcastState now s) = players s"
  "coins (broadcastState now s) = coins s"
  "readyState (broadcastState now s) = readyState s"
  "outbox (broadcastState now s) = outbox s @ state_frames now s"
  by (simp_all add: broadcastState_eq)

lemma send_fields [simp]:
  "nextId (send ws f s) = nextId s"
  "players (send ws f s) = players s"
  "coins (send ws f s) = coins s"
  "readyState (send ws f s) = readyState s"
  by (simp_all add: send_def ws_send_def)

lemma set_player_fields [simp]:
  "nextId (set_player h p s) = nextId s"
  "players (set_player h p s) = players s"
  "coins (set_player h p s) = coins s"
  "readyState (set_player h p s) = readyState s"
  "outbox (set_player h p s) = outbox s"
  "objs (set_player h p s) = (objs s)(h := p)"
  by (simp_all add: set_player_def)

lemma on_connection_fields [simp]:
  "nextId (on_connection ws now s) = incr (nextId s)"
  "coins (on_connection ws now s) = coins s"
  "readyState (on_connection ws now s) = readyState s"
  "players (on_connection ws now s) = Map_set (''p'' @ show_nat (nextId s)) ws (players s)"
  "objs (on_connection ws now s) = (objs s)(ws := new_player (''p'' @ show_nat (nextId s)) ws)"
  by (simp_all add: on_connection_def Let_def)

lemma msg_join_fields [simp]:
  "nextId (msg_join h now msg s) = nextId s"
  "players (msg_join h now msg s) = players s"
  "coins (msg_join h now msg s) = coins s"
  "readyState (msg_join h now msg s) = readyState s"
  by (simp_all add: msg_join_def Let_def split: jsval.splits)

lemma msg_update_fields [simp]:
  "nextId (msg_update h msg s) = nextId s"
  "players (msg_update h msg s) = players s"
  "coins (msg_update h msg s) = coins s"
  "readyState (msg_update h msg s) = readyState s"
  "outbox (msg_update h msg s) = outbox s"
  by (simp_all add: msg_update_def Let_def split: jsval.splits)

lemma msg_signal_fields [simp]:
  "nextId (msg_signal h msg s) = nextId s"
  "players (msg_signal h msg s) = players s"
  "coins (msg_signal h msg s) = coins s"
  "readyState (msg_signal h msg s) = readyState s"
  "objs (msg_signal h msg s) = objs s"
  by (simp_all add: msg_signal_def split: option.splits)

lemma msg_collect_fields [simp]:
  "nextId (msg_collect h now msg s) = nextId s"
  "players (msg_collect h now msg s) = players s"
  "readyState (msg_collect h now msg s) = readyState s"
  "objs (msg_collect h now msg s) = objs s"
  by (simp_all add: msg_collect_def Let_def split: option.splits)

lemma on_close_fields [simp]:
  "nextId (on_close h now s) = nextId s"
  "coins (on_close h now s) = coins s"
  "readyState (on_close h now s) = readyState s"
  "objs (on_close h now s) = objs s"
  by (simp_all add: on_close_def)

lemma find_idx_Some:
  "find_idx P xs = Some i \<Longrightarrow> i < length xs \<and> P (xs ! i)"
  by (induction xs arbitrary: i) (auto split: if_splits)


lemma msg_collect_eq:
  "msg_collect h now msg s =
     (case named_coin msg s of
        None \<Rightarrow> s
      | Some i \<Rightarrow>
          if \<not> c_taken (coins s ! i) \<and> proximity (coins s ! i) (objs s h)
          then broadcastState now (s\<lparr>coins := (coins s)[i := (coins s ! i)\<lparr>c_taken := True\<rparr>]\<rparr>)
          else s)"
  by (simp add: msg_collect_def named_coin_def Let_def split: option.splits)

section \<open>Collecting a coin\<close>

lemma named_coin_c0: "coins s = coins world0 \<Longrightarrow> named_coin collect_c0 s = Some 0"
  by (simp add: named_coin_def collect_c0_def world0_def init_def coins_spawnCoins
      upt_conv_Cons new_coin_def show_nat.simps digit_def)

lemma coins_connected0: "coins connected0 = coins world0"
  by (simp add: connected0_def)

lemma nextId_world0: "nextId world0 = 1"
  by (simp add: world0_def init_def spawnCoins_def)

lemma objs_connected0: "objs connected0 0 = new_player ''p1'' 0"
  by (simp add: connected0_def nextId_world0 show_nat.simps digit_def)

lemma collect_c0_type: "get_prop collect_c0 ''type'' = JStr ''collect''"
  by (simp add: collect_c0_def)




section \<open>A taken coin stays taken\<close>

lemma coins_kept_refl: "coins_kept cs cs"
  by (simp add: coins_kept_def list_all2_same)

lemma coins_kept_trans: "coins_kept as bs \<Longrightarrow> coins_kept bs cs \<Longrightarrow> coins_kept as cs"
  unfolding coins_kept_def
  by (erule (1) list_all2_trans [rotated]) auto

lemma coins_kept_take:
  "i < length cs \<Longrightarrow> coins_kept cs (cs[i := (cs ! i)\<lparr>c_taken := True\<rparr>])"
  by (simp add: coins_kept_def list_all2_conv_all_nth nth_list_update)

lemma coins_kept_nth:
  "coins_kept cs cs' \<Longrightarrow> i < length cs \<Longrightarrow> c_taken (cs ! i) \<Longrightarrow>
     length cs' = length cs \<and> c_taken (cs' ! i)"
  by (auto simp: coins_kept_def list_all2_conv_all_nth)

lemma find_idx_ids:
  "list_all2 (\<lambda>c c'. P c' = P c) cs cs' \<Longrightarrow> find_idx P cs' = find_idx P cs"
  by (induction rule: list_all2_induct) simp_all

lemma coins_kept_named_coin:
  assumes "coins_kept (coins s) (coins s')"
  shows "named_coin msg s' = named_coin msg s"
proof -
  from assms have "list_all2 (\<lambda>c c'. (JStr (c_id c') = get_prop msg ''coinId'') =
      (JStr (c_id c) = get_prop msg ''coinId'')) (coins s) (coins s')"
    unfolding coins_kept_def by (rule list_all2_mono) simp
  then show ?thesis
    unfolding named_coin_def by (rule find_idx_ids)
qed

lemma msg_collect_coins_kept: "coins_kept (coins s) (coins (msg_collect h now msg s))"
  by (auto simp: msg_collect_eq named_coin_def coins_kept_refl coins_kept_take
      dest: find_idx_Some split: option.splits)

lemma on_message_coins_kept:
  assumes "on_message h now raw s = Inr s'"
  shows "coins_kept (coins s) (coins s')"
proof (cases raw)
  case SyntaxError
  with assms show ?thesis by (simp add: on_message_def coins_kept_refl)
next
  case (Value msg)
  let ?ty = "get_prop msg ''type''"
  consider (join) "?ty = JStr ''join''" | (update) "?ty = JStr ''update''"
    | (collect) "?ty = JStr ''collect''" | (signal) "?ty = JStr ''signal''"
    | (chat) "?ty = JStr ''chat''"
    | (other) "?ty \<noteq> JStr ''join''" "?ty \<noteq> JStr ''update''" "?ty \<noteq> JStr ''collect''"
        "?ty \<noteq> JStr ''signal''" "?ty \<noteq> JStr ''chat''"
    by blast
  then show ?thesis
  proof cases
    case join
    with assms Value show ?thesis by (auto simp: on_message_join coins_kept_refl)
  next
    case update
    with assms Value show ?thesis by (auto simp: on_message_update coins_kept_refl)
  next
    case collect
    with assms Value show ?thesis by (auto simp: on_message_collect msg_collect_coins_kept)
  next
    case signal
    with assms Value show ?thesis by (auto simp: on_message_signal coins_kept_refl)
  next
    case chat
    with assms Value show ?thesis
      by (auto simp: on_message_chat msg_chat_def coins_kept_refl split: if_splits)
  next
    case other
    with assms Value show ?thesis by (auto simp: on_message_other coins_kept_refl)
  qed
qed

lemma step_coins_kept:
  assumes "step e s = Inr s'"
  shows "coins_kept (coins s) (coins s')"
proof (cases e)
  case (Pair now ev)
  with assms show ?thesis
    by (cases ev) (auto simp: coins_kept_refl on_message_coins_kept)
qed

lemma run_coins_kept:
  "run es s = Inr s' \<Longrightarrow> coins_kept (coins s) (coins s')"
proof (induction es arbitrary: s)
  case Nil
  then show ?case by (simp add: coins_kept_refl)
next
  case (Cons e es)
  then obtain s1 where 1: "step e s = Inr s1" and 2: "run es s1 = Inr s'"
    by (auto split: sum.splits)
  from step_coins_kept [OF 1] Cons.IH [OF 2] show ?case
    by (rule coins_kept_trans)
qed

text \<open>
  Claim C3. Whatever events the server processes after a coin is taken (frames of any
  socket, connections, closes, ticks), the coin list keeps its length, the coin is
  still taken, a \<open>coinId\<close> still names the same coin, and a \<open>collect\<close> naming the
  taken coin, from any socket, returns the state as it is: no second collection, no
  broadcast.
\<close>

theorem taken_never_reset:
  assumes "run es s = Inr s'" and "i < length (coins s)" and "c_taken (coins s ! i)"
  shows "length (coins s') = length (coins s) \<and> c_taken (coins s' ! i) \<and>
         named_coin msg s' = named_coin msg s \<and>
         (get_prop msg ''type'' = JStr ''collect'' \<and> named_coin msg s = Some i \<longrightarrow>
            on_message h now (Value msg) s' = Inr s')"
proof -
  note kept = run_coins_kept [OF assms(1)]
  from coins_kept_nth [OF kept assms(2,3)]
  have a: "length (coins s') = length (coins s)" "c_taken (coins s' ! i)" by simp_all
  have b: "named_coin msg s' = named_coin msg s"
    using kept by (rule coins_kept_named_coin)
  have "on_message h now (Value msg) s' = Inr s'"
    if "get_prop msg ''type'' = JStr ''collect''" "named_coin msg s = Some i"
    using that a b by (simp add: on_message_collect msg_collect_eq)
  with a b show ?thesis by blast
qed

lemma joined_near_facts:
  "coins (msg_join 0 2 join_near connected0) = coins world0"
  "p_x (objs (msg_join 0 2 join_near connected0) 0) = Fin 805"
  "p_y (objs (msg_join 0 2 join_near connected0) 0) = Fin 419"
  by (simp_all add: coins_connected0 msg_join_def join_near_def)

lemma taken0_facts:
  "0 < length (coins taken0)" "c_taken (coins taken0 ! 0)"
  "named_coin collect_c0 taken0 = Some 0"
proof -
  let ?j = "msg_join 0 2 join_near connected0"
  have n: "named_coin collect_c0 ?j = Some 0"
    by (rule named_coin_c0) (rule joined_near_facts)
  have p: "proximity (coins ?j ! 0) (objs ?j 0)"
    by (simp add: joined_near_facts coins_connected0 coins_world0_0 proximity_def js_sub_def)
  have l: "0 < length (coins world0)"
    by (simp add: world0_def init_def coins_spawnCoins)
  from n p l show "0 < length (coins taken0)" "c_taken (coins taken0 ! 0)"
    by (simp_all add: taken0_def msg_collect_eq joined_near_facts coins_connected0
        coins_world0_0)
  show "named_coin collect_c0 taken0 = Some 0"
    unfolding taken0_def using n
    by (simp add: coins_kept_named_coin [OF msg_collect_coins_kept])
qed

text \<open>
  The theorem after \<open>c0\<close> was collected: the same \<open>collect\<close> again, a tick, and once
  more the same \<open>collect\<close>.
\<close>

theorem taken_never_reset_witness:
  "run [(4, Message 0 (Value collect_c0)), (5, Tick)] taken0 = Inr (broadcastState 5 taken0) \<and>
   0 < length (coins taken0) \<and> c_taken (coins taken0 ! 0) \<and>
   get_prop collect_c0 ''type'' = JStr ''collect'' \<and> named_coin collect_c0 taken0 = Some 0 \<and>
   c_taken (coins (broadcastState 5 taken0) ! 0) \<and>
   on_message 0 6 (Value collect_c0) (broadcastState 5 taken0) = Inr (broadcastState 5 taken0)"
proof -
  have r: "run [(4, Message 0 (Value collect_c0)), (5, Tick)] taken0 = Inr (broadcastState 5 taken0)"
    by (simp add: on_message_collect [OF collect_c0_type] msg_collect_eq taken0_facts)
  from taken_never_reset [OF r taken0_facts(1,2), of collect_c0 0 6]
    r taken0_facts collect_c0_type
  show ?thesis by simp
qed

section \<open>A collect that fails\<close>

text \<open>
  Claim C4. A \<open>collect\<close> message never raises an error. When its \<open>coinId\<close> names no
  coin, or names a coin already taken, or the proximity check fails, the handler
  returns the state unchanged: no field of a player or a coin changes and nothing is
  sent. When something is sent, the message named a coin that was not taken, the
  proximity check passed, and the coin is now taken.
\<close>

theorem failed_collect_is_silent:
  assumes "get_prop msg ''type'' = JStr ''collect''"
  shows "(\<exists>s'. on_message h now (Value msg) s = Inr s') \<and>
         (named_coin msg s = None \<or>
          (\<exists>i. named_coin msg s = Some i \<and>
               (c_taken (coins s ! i) \<or> \<not> proximity (coins s ! i) (objs s h)))
          \<longrightarrow> on_message h now (Value msg) s = Inr s) \<and>
         (\<forall>s'. on_message h now (Value msg) s = Inr s' \<and> outbox s' \<noteq> outbox s \<longrightarrow>
            (\<exists>i. named_coin msg s = Some i \<and> \<not> c_taken (coins s ! i) \<and>
                 proximity (coins s ! i) (objs s h) \<and> c_taken (coins s' ! i)))"
  by (auto simp: on_message_collect [OF assms] msg_collect_eq named_coin_def
      dest: find_idx_Some split: option.splits if_splits)

lemma connected0_far:
  "named_coin collect_c0 connected0 = Some 0"
  "\<not> proximity (coins connected0 ! 0) (objs connected0 0)"
proof -
  show "named_coin collect_c0 connected0 = Some 0"
    by (rule named_coin_c0) (rule coins_connected0)
  show "\<not> proximity (coins connected0 ! 0) (objs connected0 0)"
    by (simp add: coins_connected0 coins_world0_0 objs_connected0 new_player_def
        proximity_def js_sub_def WORLD_W_def WORLD_H_def)
qed

text \<open>
  The theorem at a player just connected, at \<open>(800, 450)\<close>: the coin \<open>c0\<close> at
  \<open>(800, 410)\<close> is at squared distance 1600 and the \<open>collect\<close> changes nothing.
\<close>

theorem failed_collect_is_silent_witness:
  "get_prop collect_c0 ''type'' = JStr ''collect'' \<and>
   named_coin collect_c0 connected0 = Some 0 \<and>
   \<not> proximity (coins connected0 ! 0) (objs connected0 0) \<and>
   on_message 0 2 (Value collect_c0) connected0 = Inr connected0"
  using failed_collect_is_silent [OF collect_c0_type, of 0 2 connected0]
    collect_c0_type connected0_far
  by simp

section \<open>Frames the handler ignores\<close>

text \<open>
  Claim C5. A frame that \<open>JSON.parse\<close> rejects, or whose value is falsy, or has no
  truthy \<open>type\<close>, or has a \<open>type\<close> other than \<open>join\<close>, \<open>update\<close>, \<open>collect\<close>,
  \<open>signal\<close> and \<open>chat\<close>, makes the handler return normally with the state it was
  given: no player, no coin, nothing of the \<open>Map\<close> changes, and nothing is sent.
\<close>

theorem unrecognised_frame_ignored:
  assumes "raw = SyntaxError \<or>
           (\<exists>msg. raw = Value msg \<and>
              (\<not> truthy msg \<or> \<not> truthy (get_prop msg ''type'') \<or>
               get_prop msg ''type'' \<notin> {JStr ''join'', JStr ''update'', JStr ''collect'',
                                        JStr ''signal'', JStr ''chat''}))"
  shows "on_message h now raw s = Inr s"
  using assms by (auto simp: on_message_def)

text \<open>
  The theorem at a frame that does not parse, at \<open>null\<close>, at the array \<open>["join"]\<close>
  and at an object of type \<open>dance\<close>.
\<close>

theorem unrecognised_frame_ignored_witness:
  "on_message 0 2 SyntaxError connected0 = Inr connected0 \<and>
   \<not> truthy JNull \<and> on_message 0 2 (Value JNull) connected0 = Inr connected0 \<and>
   \<not> truthy (get_prop (JArr [JStr ''join'']) ''type'') \<and>
   on_message 0 2 (Value (JArr [JStr ''join''])) connected0 = Inr connected0 \<and>
   get_prop dance ''type'' = JStr ''dance'' \<and>
   on_message 0 2 (Value dance) connected0 = Inr connected0"
proof -
  have a: "on_message 0 2 SyntaxError connected0 = Inr connected0"
    by (rule unrecognised_frame_ignored) simp
  have b: "on_message 0 2 (Value JNull) connected0 = Inr connected0"
    by (rule unrecognised_frame_ignored) simp
  have c: "on_message 0 2 (Value (JArr [JStr ''join''])) connected0 = Inr connected0"
    by (rule unrecognised_frame_ignored) simp
  have d: "on_message 0 2 (Value dance) connected0 = Inr connected0"
    by (rule unrecognised_frame_ignored) (simp add: dance_def)
  from a b c d show ?thesis by (simp add: dance_def)
qed

section \<open>Signalling\<close>




section \<open>Joining\<close>

lemma msg_join_objs:
  "objs (msg_join h now msg s) =
     (objs s)(h := (objs s h)\<lparr>
        p_name := (case get_prop msg ''name'' of JStr n \<Rightarrow> take 32 n | _ \<Rightarrow> p_name (objs s h)),
        p_x := (case get_prop msg ''x'' of JNum v \<Rightarrow> v | _ \<Rightarrow> p_x (objs s h)),
        p_y := (case get_prop msg ''y'' of JNum v \<Rightarrow> v | _ \<Rightarrow> p_y (objs s h))\<rparr>)"
  by (cases "get_prop msg ''x''"; cases "get_prop msg ''y''")
     (simp_all add: msg_join_def Let_def)

lemma msg_join_outbox:
  "outbox (msg_join h now msg s) = outbox s @ state_frames now (msg_join h now msg s)"
  by (simp add: msg_join_def Let_def broadcastState_eq split: jsval.splits)

text \<open>
  Claim C8. A \<open>join\<close> message returns normally. The player's name becomes the first
  32 characters of \<open>name\<close> when \<open>name\<close> is a string, and stays otherwise; \<open>x\<close> and
  \<open>y\<close> become the message's \<open>x\<close> and \<open>y\<close> when these are numbers, as they are, with
  no clamping, and stay otherwise. No other field, player or coin changes, and a
  broadcast of the new state follows at once.
\<close>

theorem join_sets_name_and_position:
  assumes "get_prop msg ''type'' = JStr ''join''"
  shows "\<exists>s'. on_message h now (Value msg) s = Inr s' \<and>
     p_name (objs s' h) =
       (case get_prop msg ''name'' of JStr n \<Rightarrow> take 32 n | _ \<Rightarrow> p_name (objs s h)) \<and>
     p_x (objs s' h) = (case get_prop msg ''x'' of JNum v \<Rightarrow> v | _ \<Rightarrow> p_x (objs s h)) \<and>
     p_y (objs s' h) = (case get_prop msg ''y'' of JNum v \<Rightarrow> v | _ \<Rightarrow> p_y (objs s h)) \<and>
     p_id (objs s' h) = p_id (objs s h) \<and>
     p_bubbleRadius (objs s' h) = p_bubbleRadius (objs s h) \<and>
     p_ws (objs s' h) = p_ws (objs s h) \<and>
     (\<forall>h'. h' \<noteq> h \<longrightarrow> objs s' h' = objs s h') \<and>
     coins s' = coins s \<and> players s' = players s \<and> nextId s' = nextId s \<and>
     readyState s' = readyState s \<and>
     outbox s' = outbox s @ state_frames now s'"
  by (simp add: on_message_join [OF assms] msg_join_objs msg_join_outbox)

text \<open>
  The theorem at a name of 40 characters, \<open>x = 5000\<close> and \<open>y = 'up'\<close>: the name is
  cut to 32 characters, \<open>x\<close> becomes 5000, \<open>y\<close> stays 450.
\<close>

theorem join_sets_name_and_position_witness:
  "get_prop join_wide ''type'' = JStr ''join'' \<and>
   (\<exists>s'. on_message 0 2 (Value join_wide) connected0 = Inr s' \<and>
      p_name (objs s' 0) = ''ABCDEFGHIJKLMNOPQRSTUVWXYZabcdef'' \<and>
      p_x (objs s' 0) = Fin 5000 \<and> p_y (objs s' 0) = Fin 450 \<and>
      outbox s' = outbox connected0 @ state_frames 2 s')"
proof -
  have t: "get_prop join_wide ''type'' = JStr ''join''"
    by (simp add: join_wide_def)
  from join_sets_name_and_position [OF t, of 0 2 connected0] t show ?thesis
    by (auto simp: join_wide_def objs_connected0 new_player_def WORLD_H_def)
qed

section \<open>Chat\<close>

text \<open>
  Claim C9 does not hold of the code for every \<open>text\<close>. At the frame
  \<open>{"type": "chat", "text": {"toString": 1}}\<close> the call \<open>String(msg.text || '')\<close>
  throws a \<open>TypeError\<close> before \<open>broadcastState()\<close> is reached: the handler does not
  return and no broadcast happens.
\<close>

theorem chat_toString_throws: "on_message h now (Value chat_toString) s = Inl TypeError"
  by (simp add: on_message_def chat_toString_def msg_chat_def js_or_def)

text \<open>
  The same at a player just connected.
\<close>

theorem chat_toString_throws_witness:
  "on_message 0 2 (Value chat_toString) connected0 = Inl TypeError"
  by (rule chat_toString_throws)

text \<open>
  For a \<open>text\<close> whose conversion to a string returns, a \<open>chat\<close> is one broadcast of
  the unchanged state; the text is in no payload.
\<close>

lemma chat_broadcasts:
  assumes "get_prop msg ''type'' = JStr ''chat''"
    and "String_returns (js_or (get_prop msg ''text'') (JStr []))"
  shows "on_message h now (Value msg) s = Inr (s\<lparr>outbox := outbox s @ state_frames now s\<rparr>)"
  using assms(2) by (simp add: on_message_chat [OF assms(1)] msg_chat_def broadcastState_eq)

section \<open>Opening a connection\<close>












lemma connections_append: "connections (es @ fs) = connections es + connections fs"
  by (simp add: connections_def)







end
